theory Spec2Isabelle
  imports Complex_Main
begin

section \<open>Python values used by the monitoring code\<close>

text \<open>
  The repository is Python. Its monitoring layer (\<^verbatim>\<open>src/monitoring/logger.py\<close>,
  \<^verbatim>\<open>src/monitoring/dashboard.py\<close>) and the command runner it probes
  (\<^verbatim>\<open>src/cloud/s3_manager.py\<close>) are embedded below, function by function.

  Numbers: a Python \<^verbatim>\<open>int\<close> is an \<^typ>\<open>int\<close>; a Python \<^verbatim>\<open>float\<close> is idealised as the
  \<^typ>\<open>real\<close> it denotes (no NaN, no infinity, no rounding of the last bit).
  Keyword arguments and dictionaries are association lists in insertion order whose
  values are JSON values, the only values \<^verbatim>\<open>json.dumps\<close> accepts.
\<close>

datatype pynum = PInt int | PFloat real

fun num_val :: "pynum \<Rightarrow> real" where
  "num_val (PInt i) = of_int i"
| "num_val (PFloat x) = x"

datatype json =
    JNull
  | JBool bool
  | JNum pynum
  | JStr string
  | JArr "json list"
  | JObj "(string \<times> json) list"

text \<open>\<^verbatim>\<open>d.get(k)\<close> on a dictionary value; \<open>None\<close> when the key is absent or the value is
  no dictionary.\<close>

fun dict_get :: "json \<Rightarrow> string \<Rightarrow> json option" where
  "dict_get (JObj kvs) k = map_of kvs k"
| "dict_get _ k = None"

fun dict_keys :: "json \<Rightarrow> string list" where
  "dict_keys (JObj kvs) = map fst kvs"
| "dict_keys _ = []"

text \<open>Python's truth value of a JSON value (used by \<^verbatim>\<open>context or {}\<close>).\<close>

fun truthy :: "json \<Rightarrow> bool" where
  "truthy JNull = False"
| "truthy (JBool b) = b"
| "truthy (JNum n) = (num_val n \<noteq> 0)"
| "truthy (JStr s) = (s \<noteq> [])"
| "truthy (JArr xs) = (xs \<noteq> [])"
| "truthy (JObj kvs) = (kvs \<noteq> [])"

text \<open>
  \<^verbatim>\<open>round(x, n)\<close>: an \<^verbatim>\<open>int\<close> is returned unchanged, a \<^verbatim>\<open>float\<close> is rounded to \<open>n\<close>
  decimals, ties to even. (Python rounds the binary value of the float; on the exact
  value this is the function below.)
\<close>

definition round_half_even :: "real \<Rightarrow> int" where
  "round_half_even x =
     (let f = \<lfloor>x\<rfloor>; d = x - of_int f
      in if d < 1 / 2 then f
         else if 1 / 2 < d then f + 1
         else if even f then f else f + 1)"

definition round_float :: "real \<Rightarrow> nat \<Rightarrow> real" where
  "round_float x n = of_int (round_half_even (x * 10 ^ n)) / 10 ^ n"

fun py_round :: "pynum \<Rightarrow> nat \<Rightarrow> pynum" where
  "py_round (PInt i) n = PInt i"
| "py_round (PFloat x) n = PFloat (round_float x n)"

text \<open>
  An exception object: the name of its class, whether the class derives from
  \<^verbatim>\<open>Exception\<close> (\<^verbatim>\<open>KeyboardInterrupt\<close>, \<^verbatim>\<open>SystemExit\<close> and \<^verbatim>\<open>GeneratorExit\<close> derive from
  \<^verbatim>\<open>BaseException\<close> only), and \<^verbatim>\<open>str(e)\<close>.
\<close>

datatype py_exc = PyExc (exc_class: string) (exc_is_Exception: bool) (exc_str: string)

text \<open>
  Library functions whose output is text are parameters of the model: the claims
  do not depend on how \<^verbatim>\<open>json.dumps\<close> or a format specification lay a value out,
  only on where the code puts the result.
\<close>

record pylib =
  json_dumps :: "json \<Rightarrow> string"
  json_dumps_indent2 :: "json \<Rightarrow> string"
  format_2f :: "real \<Rightarrow> string"
  str_num :: "pynum \<Rightarrow> string"
  isoformat :: "int \<Rightarrow> string"
  str_strip :: "string \<Rightarrow> string"

section \<open>The logger: \<^verbatim>\<open>src/monitoring/logger.py\<close>\<close>

subsection \<open>Python's \<^verbatim>\<open>logging\<close>: levels, handlers, a logger\<close>

datatype level = DEBUG | INFO | WARNING | ERROR

fun levelno :: "level \<Rightarrow> nat" where
  "levelno DEBUG = 10"
| "levelno INFO = 20"
| "levelno WARNING = 30"
| "levelno ERROR = 40"

record log_record =
  rec_name :: string
  rec_level :: level
  rec_msg :: string

datatype stream = StreamHandler_stdout | FileHandler string

datatype formatter = Formatter string | JsonFormatter

text \<open>A handler keeps, in \<open>h_emitted\<close>, the records it has written to its stream, oldest
  first.\<close>

record handler =
  h_stream :: stream
  h_level :: level
  h_formatter :: formatter
  h_emitted :: "log_record list"

record py_logger =
  lg_name :: string
  lg_level :: level
  lg_handlers :: "handler list"

text \<open>\<^verbatim>\<open>Logger.callHandlers\<close>: a handler handles the record when
  \<^verbatim>\<open>record.levelno >= hdlr.level\<close>.\<close>

definition handle :: "log_record \<Rightarrow> handler \<Rightarrow> handler" where
  "handle r h =
     (if levelno (h_level h) \<le> levelno (rec_level r)
      then h\<lparr>h_emitted := h_emitted h @ [r]\<rparr> else h)"

text \<open>\<^verbatim>\<open>Logger.info\<close>, \<^verbatim>\<open>.error\<close>, \<^verbatim>\<open>.warning\<close>, \<^verbatim>\<open>.debug\<close>: when the logger is enabled for
  the level a record is made and every handler is offered it.\<close>

definition Logger_log :: "level \<Rightarrow> py_logger \<Rightarrow> string \<Rightarrow> py_logger" where
  "Logger_log lv lg msg =
     (if levelno (lg_level lg) \<le> levelno lv
      then lg\<lparr>lg_handlers :=
             map (handle \<lparr>rec_name = lg_name lg, rec_level = lv, rec_msg = msg\<rparr>)
               (lg_handlers lg)\<rparr>
      else lg)"

definition addHandler :: "py_logger \<Rightarrow> handler \<Rightarrow> py_logger" where
  "addHandler lg h = lg\<lparr>lg_handlers := lg_handlers lg @ [h]\<rparr>"

subsection \<open>Paths (\<^verbatim>\<open>pathlib\<close>, POSIX flavour)\<close>

text \<open>A path is its root (empty, \<^verbatim>\<open>/\<close> or \<^verbatim>\<open>//\<close>) and its components.\<close>

datatype path = PurePath (p_root: string) (p_parts: "string list")

fun split_on :: "char \<Rightarrow> string \<Rightarrow> string list" where
  "split_on c [] = [[]]"
| "split_on c (x # xs) =
     (if x = c then [] # split_on c xs
      else (case split_on c xs of w # ws \<Rightarrow> (x # w) # ws | [] \<Rightarrow> [[x]]))"

fun join_with :: "string \<Rightarrow> string list \<Rightarrow> string" where
  "join_with sep [] = []"
| "join_with sep [x] = x"
| "join_with sep (x # y # ys) = x @ sep @ join_with sep (y # ys)"

definition splitroot :: "string \<Rightarrow> string \<times> string" where
  "splitroot p =
     (if take 1 p \<noteq> ''/'' then ('''', p)
      else if take 1 (drop 1 p) \<noteq> ''/'' \<or> take 1 (drop 2 p) = ''/'' then (''/'', drop 1 p)
      else (take 2 p, drop 2 p))"

definition Path :: "string \<Rightarrow> path" where
  "Path s =
     (case splitroot s of
        (rt, rel) \<Rightarrow> PurePath rt (filter (\<lambda>x. x \<noteq> [] \<and> x \<noteq> ''.'') (split_on CHR ''/'' rel)))"

text \<open>\<^verbatim>\<open>p / s\<close>: an absolute right operand replaces the left one.\<close>

definition path_div :: "path \<Rightarrow> string \<Rightarrow> path" where
  "path_div p s =
     (let q = Path s
      in if p_root q \<noteq> [] then q else PurePath (p_root p) (p_parts p @ p_parts q))"

definition path_str :: "path \<Rightarrow> string" where
  "path_str p =
     (if p_root p = [] \<and> p_parts p = [] then ''.''
      else p_root p @ join_with ''/'' (p_parts p))"


subsection \<open>\<^verbatim>\<open>WorkflowLogger\<close>\<close>

record WorkflowLogger =
  wl_name :: string
  wl_log_dir :: path
  wl_logger :: py_logger

definition setup_console_handler :: "WorkflowLogger \<Rightarrow> WorkflowLogger" where
  "setup_console_handler W =
     W\<lparr>wl_logger := addHandler (wl_logger W)
         \<lparr>h_stream = StreamHandler_stdout, h_level = INFO,
          h_formatter = Formatter ''%(asctime)s - %(name)s - %(levelname)s - %(message)s'',
          h_emitted = []\<rparr>\<rparr>"

text \<open>\<open>today\<close> is \<^verbatim>\<open>datetime.now().strftime("%Y-%m-%d")\<close>.\<close>

definition setup_file_handler :: "string \<Rightarrow> WorkflowLogger \<Rightarrow> WorkflowLogger" where
  "setup_file_handler today W =
     (let log_file = path_div (wl_log_dir W) (wl_name W @ ''-'' @ today @ ''.log'')
      in W\<lparr>wl_logger := addHandler (wl_logger W)
            \<lparr>h_stream = FileHandler (path_str log_file), h_level = DEBUG,
             h_formatter =
               Formatter ''%(asctime)s - %(levelname)s - %(funcName)s:%(lineno)d - %(message)s'',
             h_emitted = []\<rparr>\<rparr>)"

definition setup_json_handler :: "string \<Rightarrow> WorkflowLogger \<Rightarrow> WorkflowLogger" where
  "setup_json_handler today W =
     (let json_file = path_div (wl_log_dir W) (wl_name W @ ''-'' @ today @ ''.json'')
      in W\<lparr>wl_logger := addHandler (wl_logger W)
            \<lparr>h_stream = FileHandler (path_str json_file), h_level = INFO,
             h_formatter = JsonFormatter, h_emitted = []\<rparr>\<rparr>)"

text \<open>
  \<^verbatim>\<open>WorkflowLogger.__init__\<close>: the logger of that name at level \<^verbatim>\<open>DEBUG\<close>, its handlers
  cleared, then the console, the file and the JSON handler in this order. What
  \<^verbatim>\<open>__init__\<close> does to the file system (the log directory, the two files opened for
  appending) is not part of the logger's state and is left out.
\<close>

definition WorkflowLogger_init :: "string \<Rightarrow> string \<Rightarrow> string \<Rightarrow> WorkflowLogger" where
  "WorkflowLogger_init today name log_dir =
     setup_json_handler today
       (setup_file_handler today
         (setup_console_handler
           \<lparr>wl_name = name, wl_log_dir = Path log_dir,
            wl_logger = \<lparr>lg_name = name, lg_level = DEBUG, lg_handlers = []\<rparr>\<rparr>))"

definition info :: "pylib \<Rightarrow> WorkflowLogger \<Rightarrow> string \<Rightarrow> (string \<times> json) list \<Rightarrow> WorkflowLogger" where
  "info py W message kwargs =
     (let message = (if kwargs \<noteq> [] then message @ '' | Context: '' @ json_dumps py (JObj kwargs)
                     else message)
      in W\<lparr>wl_logger := Logger_log INFO (wl_logger W) message\<rparr>)"

definition error :: "pylib \<Rightarrow> WorkflowLogger \<Rightarrow> string \<Rightarrow> (string \<times> json) list \<Rightarrow> WorkflowLogger" where
  "error py W message kwargs =
     (let message = (if kwargs \<noteq> [] then message @ '' | Context: '' @ json_dumps py (JObj kwargs)
                     else message)
      in W\<lparr>wl_logger := Logger_log ERROR (wl_logger W) message\<rparr>)"

definition warning :: "pylib \<Rightarrow> WorkflowLogger \<Rightarrow> string \<Rightarrow> (string \<times> json) list \<Rightarrow> WorkflowLogger" where
  "warning py W message kwargs =
     (let message = (if kwargs \<noteq> [] then message @ '' | Context: '' @ json_dumps py (JObj kwargs)
                     else message)
      in W\<lparr>wl_logger := Logger_log WARNING (wl_logger W) message\<rparr>)"

definition debug :: "pylib \<Rightarrow> WorkflowLogger \<Rightarrow> string \<Rightarrow> (string \<times> json) list \<Rightarrow> WorkflowLogger" where
  "debug py W message kwargs =
     (let message = (if kwargs \<noteq> [] then message @ '' | Context: '' @ json_dumps py (JObj kwargs)
                     else message)
      in W\<lparr>wl_logger := Logger_log DEBUG (wl_logger W) message\<rparr>)"

text \<open>
  \<^verbatim>\<open>WorkflowLogger.timer\<close>, a context manager. \<open>work\<close> is the body of the \<^verbatim>\<open>with\<close>
  statement: it runs on the logger as the start record left it and either completes
  with a value (\<open>Inr\<close>) or raises (\<open>Inl\<close>). \<open>t0\<close> and \<open>t1\<close> are the two readings of
  \<^verbatim>\<open>time.time()\<close>. The clause \<^verbatim>\<open>except Exception\<close> catches the exceptions whose class
  derives from \<^verbatim>\<open>Exception\<close>; any other passes through it untouched. The bare
  \<^verbatim>\<open>raise\<close> re-raises the exception that was caught.
\<close>

definition timer ::
  "pylib \<Rightarrow> WorkflowLogger \<Rightarrow> string \<Rightarrow> real \<Rightarrow>
   (WorkflowLogger \<Rightarrow> (py_exc + 'a) \<times> WorkflowLogger) \<Rightarrow> real \<Rightarrow>
   (py_exc + 'a) \<times> WorkflowLogger" where
  "timer py W operation_name t0 work t1 =
     (let start_time = t0;
          W1 = info py W (''Starting: '' @ operation_name) []
      in case work W1 of
           (Inr v, W2) \<Rightarrow>
             (let duration = t1 - start_time
              in (Inr v,
                  info py W2
                    (''Completed: '' @ operation_name @ '' ('' @ format_2f py duration @ ''s)'') []))
         | (Inl e, W2) \<Rightarrow>
             if exc_is_Exception e then
               (let duration = t1 - start_time
                in (Inl e,
                    error py W2
                      (''Failed: '' @ operation_name @ '' ('' @ format_2f py duration @ ''s) - ''
                        @ exc_str e) []))
             else (Inl e, W2))"

definition metric ::
  "pylib \<Rightarrow> WorkflowLogger \<Rightarrow> string \<Rightarrow> pynum \<Rightarrow> string \<Rightarrow> (string \<times> json) list \<Rightarrow> WorkflowLogger" where
  "metric py W metric_name val unit tags =
     (let metric_data =
            [(''metric_name'', JStr metric_name), (''value'', JNum val),
             (''unit'', JStr unit), (''tags'', JObj tags)]
      in info py W (''METRIC: '' @ metric_name @ ''='' @ str_num py val @ unit) metric_data)"

section \<open>The command runner: \<^verbatim>\<open>src/cloud/s3_manager.py\<close>\<close>

text \<open>What \<^verbatim>\<open>subprocess.run(['aws'] + command, capture_output=True, text=True, check=True)\<close>
  can do: return with exit status 0 and this standard output, raise
  \<^verbatim>\<open>CalledProcessError\<close> with this standard error, raise \<^verbatim>\<open>FileNotFoundError\<close>, or raise
  something else (a \<^verbatim>\<open>PermissionError\<close> for a file that is not executable, say). The
  call is given no \<^verbatim>\<open>timeout\<close>: it cannot raise \<^verbatim>\<open>TimeoutExpired\<close>, and a command that never
  ends is outside this model.\<close>

datatype run_outcome =
    Run_returned string
  | Run_CalledProcessError string
  | Run_FileNotFoundError
  | Run_raised py_exc

fun run_aws_command :: "pylib \<Rightarrow> run_outcome \<Rightarrow> py_exc + bool \<times> string" where
  "run_aws_command py (Run_returned out) = Inr (True, str_strip py out)"
| "run_aws_command py (Run_CalledProcessError err) = Inr (False, str_strip py err)"
| "run_aws_command py Run_FileNotFoundError = Inr (False, ''AWS CLI not installed'')"
| "run_aws_command py (Run_raised e) = Inl e"

definition check_aws_configured :: "pylib \<Rightarrow> run_outcome \<Rightarrow> py_exc + bool" where
  "check_aws_configured py sts =
     (case run_aws_command py sts of
        Inl e \<Rightarrow> Inl e
      | Inr (success, output) \<Rightarrow> Inr success)"

section \<open>The monitor: \<^verbatim>\<open>src/monitoring/dashboard.py\<close>\<close>

text \<open>
  A \<^verbatim>\<open>datetime\<close> is the number of microseconds since the first instant of the
  calendar: the difference of two of them is exact. \<^verbatim>\<open>workflow_run\<close> and \<^verbatim>\<open>commit_sha\<close>
  are \<^verbatim>\<open>None\<close> until \<^verbatim>\<open>start_monitoring\<close> sets them. The \<^verbatim>\<open>S3Manager\<close> of the monitor has
  no field that \<^verbatim>\<open>check_aws_configured\<close> reads and is left out of the record.
\<close>

record WorkflowMonitor =
  m_workflow_name :: string
  m_logger :: WorkflowLogger
  m_start_time :: int
  m_workflow_run :: json
  m_commit_sha :: json

definition WorkflowMonitor_init :: "string \<Rightarrow> int \<Rightarrow> string \<Rightarrow> WorkflowMonitor" where
  "WorkflowMonitor_init today now workflow_name =
     \<lparr>m_workflow_name = workflow_name,
      m_logger = WorkflowLogger_init today workflow_name ''logs'',
      m_start_time = now,
      m_workflow_run = JNull,
      m_commit_sha = JNull\<rparr>"

definition start_monitoring :: "pylib \<Rightarrow> WorkflowMonitor \<Rightarrow> json \<Rightarrow> json \<Rightarrow> WorkflowMonitor" where
  "start_monitoring py M workflow_run commit_sha =
     (let M1 = M\<lparr>m_workflow_run := workflow_run, m_commit_sha := commit_sha\<rparr>
      in M1\<lparr>m_logger := info py (m_logger M1) ''Starting workflow monitoring''
               [(''workflow_run'', workflow_run), (''commit_sha'', commit_sha)]\<rparr>)"

definition thresholds :: "(string \<times> int) list" where
  "thresholds =
     [(''ollama_query'', 60), (''model_download'', 300),
      (''test_execution'', 30), (''s3_upload'', 60)]"

definition monitor_operation ::
  "pylib \<Rightarrow> WorkflowMonitor \<Rightarrow> string \<Rightarrow> pynum \<Rightarrow> bool \<Rightarrow> WorkflowMonitor" where
  "monitor_operation py M operation_name duration success =
     (let status = (if success then ''success'' else ''failure'');
          W1 = metric py (m_logger M) (operation_name @ ''_duration'') (py_round duration 2) ''s'' [];
          W2 = metric py W1 (operation_name @ ''_status'') (PInt (if success then 1 else 0)) [] [];
          threshold = (case map_of thresholds operation_name of Some t \<Rightarrow> t | None \<Rightarrow> 120)
      in if of_int threshold < num_val duration
         then M\<lparr>m_logger := warning py W2 (''Performance threshold exceeded: '' @ operation_name)
                  [(''duration'', JNum duration), (''threshold'', JNum (PInt threshold))]\<rparr>
         else M\<lparr>m_logger := W2\<rparr>)"

text \<open>What a call can raise. The file system errors name the path they are about.\<close>

datatype failure =
    Raised py_exc
  | ZeroDivisionError
  | FileExistsError path
  | FileNotFoundError path
  | NotADirectoryError path
  | IsADirectoryError path

text \<open>
  What \<^verbatim>\<open>health_check\<close> reads from its surroundings: the clock, the result of
  \<^verbatim>\<open>shutil.disk_usage('/')\<close> (it raises, or returns total, used and free bytes), the two
  evaluations of \<^verbatim>\<open>Path('logs').exists()\<close>, and what running \<^verbatim>\<open>aws sts get-caller-identity\<close>
  does.
\<close>

record health_env =
  env_now :: int
  env_disk_usage :: "py_exc + nat \<times> nat \<times> nat"
  env_logs_exists :: "bool \<times> bool"
  env_aws :: run_outcome

definition health_check ::
  "pylib \<Rightarrow> WorkflowMonitor \<Rightarrow> health_env \<Rightarrow> (failure + json) \<times> WorkflowMonitor" where
  "health_check py M env =
     (case env_disk_usage env of
        Inl e \<Rightarrow> (Inl (Raised e), M)
      | Inr (total_b, used_b, free_b) \<Rightarrow>
          if total_b = 0 then (Inl ZeroDivisionError, M)
          else
            (let free_percent = (real free_b / real total_b) * 100;
                 disk_space =
                   JObj [(''status'', JStr (if 10 < free_percent then ''healthy'' else ''warning'')),
                         (''free_percent'', JNum (PFloat (round_float free_percent 1)))];
                 logs_directory =
                   JObj [(''status'',
                            JStr (if fst (env_logs_exists env) then ''healthy'' else ''warning'')),
                         (''exists'', JBool (snd (env_logs_exists env)))]
             in case check_aws_configured py (env_aws env) of
                  Inl e \<Rightarrow> (Inl (Raised e), M)
                | Inr s3_ok \<Rightarrow>
                    (let aws_configured =
                           JObj [(''status'', JStr (if s3_ok then ''healthy'' else ''degraded'')),
                                 (''configured'', JBool s3_ok)];
                         health =
                           [(''timestamp'', JStr (isoformat py (env_now env))),
                            (''workflow_run'', m_workflow_run M),
                            (''checks'',
                               JObj [(''disk_space'', disk_space),
                                     (''logs_directory'', logs_directory),
                                     (''aws_configured'', aws_configured)])]
                     in (Inr (JObj health),
                         M\<lparr>m_logger := info py (m_logger M) ''Health check completed'' health\<rparr>))))"

definition track_error ::
  "pylib \<Rightarrow> WorkflowMonitor \<Rightarrow> string \<Rightarrow> string \<Rightarrow> json \<Rightarrow> WorkflowMonitor" where
  "track_error py M error_type error_message context =
     (let error_data =
            [(''error_type'', JStr error_type),
             (''error_message'', JStr error_message),
             (''workflow_run'', m_workflow_run M),
             (''context'', if truthy context then context else JObj [])];
          W1 = error py (m_logger M) (''Error: '' @ error_type) error_data;
          critical_errors = [''ollama_service_down'', ''model_download_failed'']
      in if error_type \<in> set critical_errors
         then M\<lparr>m_logger := error py W1 (''CRITICAL: '' @ error_type @ '' - '' @ error_message) []\<rparr>
         else M\<lparr>m_logger := W1\<rparr>)"

subsection \<open>The file system \<^verbatim>\<open>generate_summary\<close> writes to\<close>










subsection \<open>\<^verbatim>\<open>generate_summary\<close>\<close>



section \<open>Notions the properties are stated with\<close>

text \<open>What each handler of a \<^verbatim>\<open>WorkflowLogger\<close> has written, in the order of the handlers.\<close>

definition sinks :: "WorkflowLogger \<Rightarrow> log_record list list" where
  "sinks W = map h_emitted (lg_handlers (wl_logger W))"

text \<open>The shape \<^verbatim>\<open>__init__\<close> gives a \<^verbatim>\<open>WorkflowLogger\<close> and every method keeps: the logger at
  level \<^verbatim>\<open>DEBUG\<close>, carrying the name, with the three handlers and their levels.\<close>

definition wf_logger :: "WorkflowLogger \<Rightarrow> bool" where
  "wf_logger W =
     (lg_level (wl_logger W) = DEBUG \<and>
      lg_name (wl_logger W) = wl_name W \<and>
      map h_level (lg_handlers (wl_logger W)) = [INFO, DEBUG, INFO])"

text \<open>A handler of minimum level \<open>lv\<close> admits a record.\<close>

definition admits :: "level \<Rightarrow> log_record \<Rightarrow> bool" where
  "admits lv r = (levelno lv \<le> levelno (rec_level r))"

text \<open>A call of one of the four logging methods, and a sequence of them run in order.\<close>

datatype log_call = Call level string "(string \<times> json) list"

fun do_call :: "pylib \<Rightarrow> WorkflowLogger \<Rightarrow> log_call \<Rightarrow> WorkflowLogger" where
  "do_call py W (Call DEBUG m kw) = debug py W m kw"
| "do_call py W (Call INFO m kw) = info py W m kw"
| "do_call py W (Call WARNING m kw) = warning py W m kw"
| "do_call py W (Call ERROR m kw) = error py W m kw"

definition run_calls :: "pylib \<Rightarrow> WorkflowLogger \<Rightarrow> log_call list \<Rightarrow> WorkflowLogger" where
  "run_calls py W calls = foldl (do_call py) W calls"

text \<open>The record a call makes on the logger of that name.\<close>

fun call_record :: "pylib \<Rightarrow> string \<Rightarrow> log_call \<Rightarrow> log_record" where
  "call_record py name (Call lv m kw) =
     \<lparr>rec_name = name, rec_level = lv,
      rec_msg = (if kw \<noteq> [] then m @ '' | Context: '' @ json_dumps py (JObj kw) else m)\<rparr>"

text \<open>A library instance to run the model on examples; each of its functions returns a fixed
  text that names what the library would print.\<close>

definition example_py :: pylib where
  "example_py =
     \<lparr>json_dumps = (\<lambda>j. ''<json>''), json_dumps_indent2 = (\<lambda>j. ''<json, indented>''),
      format_2f = (\<lambda>x. ''<seconds>''), str_num = (\<lambda>n. ''<number>''),
      isoformat = (\<lambda>t. ''<time>''), str_strip = (\<lambda>s. s)\<rparr>"

text \<open>A monitor as \<^verbatim>\<open>WorkflowMonitor("w")\<close> makes it, at clock reading 0.\<close>

definition example_monitor :: WorkflowMonitor where
  "example_monitor = WorkflowMonitor_init ''2026-01-01'' 0 ''w''"

text \<open>
  The threshold classifier in the specification's words (section 4.4): look the
  operation name up in the threshold table; if absent use the default; the operation
  is within budget when the duration is at most the threshold. The result is the pair
  of \<open>withinBudget\<close> and \<open>thresholdUsed\<close>. The code has no such function: the lookup and the
  comparison are lines of \<^verbatim>\<open>monitor_operation\<close>, with which C3 compares this definition.
\<close>

definition spec_classify :: "(string \<Rightarrow> int option) \<Rightarrow> int \<Rightarrow> string \<Rightarrow> real \<Rightarrow> bool \<times> int" where
  "spec_classify table dflt operationName durationSeconds =
     (let threshold = (case table operationName of Some t \<Rightarrow> t | None \<Rightarrow> dflt)
      in (durationSeconds \<le> of_int threshold, threshold))"

text \<open>The status of the check of that name in a health snapshot.\<close>

definition check_status :: "json \<Rightarrow> string \<Rightarrow> json option" where
  "check_status health name =
     (case dict_get health ''checks'' of
        None \<Rightarrow> None
      | Some checks \<Rightarrow>
          (case dict_get checks name of
             None \<Rightarrow> None
           | Some c \<Rightarrow> dict_get c ''status''))"

text \<open>Surroundings for a health check: 60 percent of the disk free, the logs directory
  present, and \<^verbatim>\<open>aws sts get-caller-identity\<close> exiting with an error.\<close>

definition example_env :: health_env where
  "example_env =
     \<lparr>env_now = 5000000, env_disk_usage = Inr (1000, 400, 600),
      env_logs_exists = (True, True), env_aws = Run_CalledProcessError ''Unable to locate credentials''\<rparr>"


section \<open>Facts about the logger\<close>

lemma handle_level [simp]: "h_level (handle r h) = h_level h"
  by (simp add: handle_def)

lemma handle_emitted:
  "h_emitted (handle r h) = h_emitted h @ filter (admits (h_level h)) [r]"
  by (simp add: handle_def admits_def)

lemma Logger_log_DEBUG_logger:
  "lg_level lg = DEBUG \<Longrightarrow>
   Logger_log lv lg msg =
     lg\<lparr>lg_handlers := map (handle \<lparr>rec_name = lg_name lg, rec_level = lv, rec_msg = msg\<rparr>)
        (lg_handlers lg)\<rparr>"
  by (cases lv) (simp_all add: Logger_log_def)

lemma do_call_logger:
  assumes "lg_level (wl_logger W) = DEBUG"
  shows "wl_logger (do_call py W c) =
         (wl_logger W)\<lparr>lg_handlers :=
            map (handle (call_record py (lg_name (wl_logger W)) c)) (lg_handlers (wl_logger W))\<rparr>"
proof (cases c)
  case (Call lv m kw)
  then show ?thesis using assms
    by (cases lv) (simp_all add: debug_def info_def warning_def error_def Logger_log_DEBUG_logger Let_def)
qed

lemma map_absorb_handle:
  "map (\<lambda>h. h\<lparr>h_emitted := h_emitted h @ filter (admits (h_level h)) rs\<rparr>) (map (handle r) hs) =
   map (\<lambda>h. h\<lparr>h_emitted := h_emitted h @ filter (admits (h_level h)) (r # rs)\<rparr>) hs"
  by (induction hs) (simp_all add: handle_def admits_def)

lemma run_calls_logger:
  "lg_level (wl_logger W) = DEBUG \<Longrightarrow>
   wl_logger (run_calls py W calls) =
     (wl_logger W)\<lparr>lg_handlers :=
        map (\<lambda>h. h\<lparr>h_emitted := h_emitted h @
               filter (admits (h_level h)) (map (call_record py (lg_name (wl_logger W))) calls)\<rparr>)
          (lg_handlers (wl_logger W))\<rparr>"
proof (induction calls arbitrary: W)
  case Nil
  then show ?case by (simp add: run_calls_def)
next
  case (Cons c cs)
  let ?W1 = "do_call py W c"
  let ?r = "call_record py (lg_name (wl_logger W)) c"
  have lg1: "wl_logger ?W1 =
      (wl_logger W)\<lparr>lg_handlers := map (handle ?r) (lg_handlers (wl_logger W))\<rparr>"
    using Cons.prems by (rule do_call_logger)
  have lv1: "lg_level (wl_logger ?W1) = DEBUG" using Cons.prems by (simp add: lg1)
  have nm1: "lg_name (wl_logger ?W1) = lg_name (wl_logger W)" by (simp add: lg1)
  have hs1: "lg_handlers (wl_logger ?W1) = map (handle ?r) (lg_handlers (wl_logger W))"
    by (simp add: lg1)
  have "run_calls py W (c # cs) = run_calls py ?W1 cs" by (simp add: run_calls_def)
  then have "wl_logger (run_calls py W (c # cs)) =
      (wl_logger ?W1)\<lparr>lg_handlers :=
        map (\<lambda>h. h\<lparr>h_emitted := h_emitted h @
               filter (admits (h_level h)) (map (call_record py (lg_name (wl_logger W))) cs)\<rparr>)
          (map (handle ?r) (lg_handlers (wl_logger W)))\<rparr>"
    using Cons.IH [OF lv1] by (simp only: nm1 hs1)
  also have "\<dots> = (wl_logger W)\<lparr>lg_handlers :=
        map (\<lambda>h. h\<lparr>h_emitted := h_emitted h @
               filter (admits (h_level h)) (map (call_record py (lg_name (wl_logger W))) (c # cs))\<rparr>)
          (lg_handlers (wl_logger W))\<rparr>"
    by (simp only: map_absorb_handle list.map) (simp add: lg1)
  finally show ?case .
qed

lemma example_py_simps:
  "json_dumps example_py j = ''<json>''" "json_dumps_indent2 example_py j = ''<json, indented>''"
  "format_2f example_py x = ''<seconds>''" "str_num example_py n = ''<number>''"
  "isoformat example_py t = ''<time>''" "str_strip example_py s = s"
  by (simp_all add: example_py_def)

lemma wf_init: "wf_logger (WorkflowLogger_init today name log_dir)"
  by (simp add: wf_logger_def WorkflowLogger_init_def setup_json_handler_def setup_file_handler_def
        setup_console_handler_def addHandler_def Let_def)

lemma sinks_init: "sinks (WorkflowLogger_init today name log_dir) = [[], [], []]"
  by (simp add: sinks_def WorkflowLogger_init_def setup_json_handler_def setup_file_handler_def
        setup_console_handler_def addHandler_def Let_def)

lemma log_wf:
  assumes "wf_logger W" and "lv \<noteq> DEBUG"
  shows "wf_logger (W\<lparr>wl_logger := Logger_log lv (wl_logger W) msg\<rparr>)"
    and "sinks (W\<lparr>wl_logger := Logger_log lv (wl_logger W) msg\<rparr>) =
         map (\<lambda>rs. rs @ [\<lparr>rec_name = wl_name W, rec_level = lv, rec_msg = msg\<rparr>]) (sinks W)"
proof -
  obtain a b c where abc: "lg_handlers (wl_logger W) = [a, b, c]"
    and lv3: "h_level a = INFO" "h_level b = DEBUG" "h_level c = INFO"
    using assms(1) by (auto simp: wf_logger_def map_eq_Cons_conv)
  have dbg: "lg_level (wl_logger W) = DEBUG" and nm: "lg_name (wl_logger W) = wl_name W"
    using assms(1) by (simp_all add: wf_logger_def)
  show "wf_logger (W\<lparr>wl_logger := Logger_log lv (wl_logger W) msg\<rparr>)"
    using assms(2) by (cases lv) (simp_all add: wf_logger_def Logger_log_def dbg nm abc lv3)
  show "sinks (W\<lparr>wl_logger := Logger_log lv (wl_logger W) msg\<rparr>) =
         map (\<lambda>rs. rs @ [\<lparr>rec_name = wl_name W, rec_level = lv, rec_msg = msg\<rparr>]) (sinks W)"
    using assms(2)
    by (cases lv) (simp_all add: sinks_def Logger_log_def dbg nm abc lv3 handle_def)
qed

lemma info_wf:
  assumes "wf_logger W"
  shows "wf_logger (info py W m kw)"
    and "wl_name (info py W m kw) = wl_name W"
    and "sinks (info py W m kw) =
         map (\<lambda>rs. rs @ [call_record py (wl_name W) (Call INFO m kw)]) (sinks W)"
  using log_wf [OF assms, of INFO] by (simp_all add: info_def Let_def)

lemma error_wf:
  assumes "wf_logger W"
  shows "wf_logger (error py W m kw)"
    and "wl_name (error py W m kw) = wl_name W"
    and "sinks (error py W m kw) =
         map (\<lambda>rs. rs @ [call_record py (wl_name W) (Call ERROR m kw)]) (sinks W)"
  using log_wf [OF assms, of ERROR] by (simp_all add: error_def Let_def)

lemma warning_wf:
  assumes "wf_logger W"
  shows "wf_logger (warning py W m kw)"
    and "wl_name (warning py W m kw) = wl_name W"
    and "sinks (warning py W m kw) =
         map (\<lambda>rs. rs @ [call_record py (wl_name W) (Call WARNING m kw)]) (sinks W)"
  using log_wf [OF assms, of WARNING] by (simp_all add: warning_def Let_def)

lemma example_monitor_logger:
  "wf_logger (m_logger example_monitor)"
  "sinks (m_logger example_monitor) = [[], [], []]"
  "wl_name (m_logger example_monitor) = ''w''"
  by (simp_all add: example_monitor_def WorkflowMonitor_init_def wf_init sinks_init)
     (simp add: WorkflowLogger_init_def setup_json_handler_def setup_file_handler_def
        setup_console_handler_def)

lemma metric_wf:
  assumes "wf_logger W"
  shows "wf_logger (metric py W metric_name val unit tags)"
    and "wl_name (metric py W metric_name val unit tags) = wl_name W"
    and "sinks (metric py W metric_name val unit tags) =
         map (\<lambda>rs. rs @ [\<lparr>rec_name = wl_name W, rec_level = INFO,
            rec_msg = ''METRIC: '' @ metric_name @ ''='' @ str_num py val @ unit @ '' | Context: '' @
              json_dumps py (JObj [(''metric_name'', JStr metric_name), (''value'', JNum val),
                                   (''unit'', JStr unit), (''tags'', JObj tags)])\<rparr>]) (sinks W)"
  using info_wf [OF assms] by (simp_all add: metric_def Let_def)

lemma two_metrics:
  assumes "wf_logger W"
  shows "wf_logger (metric py (metric py W n1 v1 u1 []) n2 v2 u2 [])"
    and "wl_name (metric py (metric py W n1 v1 u1 []) n2 v2 u2 []) = wl_name W"
    and "sinks (metric py (metric py W n1 v1 u1 []) n2 v2 u2 []) =
         map (\<lambda>rs. rs @
           [\<lparr>rec_name = wl_name W, rec_level = INFO,
             rec_msg = ''METRIC: '' @ n1 @ ''='' @ str_num py v1 @ u1 @ '' | Context: '' @
               json_dumps py (JObj [(''metric_name'', JStr n1), (''value'', JNum v1),
                                    (''unit'', JStr u1), (''tags'', JObj [])])\<rparr>,
            \<lparr>rec_name = wl_name W, rec_level = INFO,
             rec_msg = ''METRIC: '' @ n2 @ ''='' @ str_num py v2 @ u2 @ '' | Context: '' @
               json_dumps py (JObj [(''metric_name'', JStr n2), (''value'', JNum v2),
                                    (''unit'', JStr u2), (''tags'', JObj [])])\<rparr>]) (sinks W)"
proof -
  let ?W1 = "metric py W n1 v1 u1 []"
  have w1: "wf_logger ?W1" and nm1: "wl_name ?W1 = wl_name W" using metric_wf [OF assms] by blast+
  show "wf_logger (metric py ?W1 n2 v2 u2 [])" by (rule metric_wf(1) [OF w1])
  show "wl_name (metric py ?W1 n2 v2 u2 []) = wl_name W" using metric_wf(2) [OF w1] nm1 by simp
  show "sinks (metric py (metric py W n1 v1 u1 []) n2 v2 u2 []) =
         map (\<lambda>rs. rs @
           [\<lparr>rec_name = wl_name W, rec_level = INFO,
             rec_msg = ''METRIC: '' @ n1 @ ''='' @ str_num py v1 @ u1 @ '' | Context: '' @
               json_dumps py (JObj [(''metric_name'', JStr n1), (''value'', JNum v1),
                                    (''unit'', JStr u1), (''tags'', JObj [])])\<rparr>,
            \<lparr>rec_name = wl_name W, rec_level = INFO,
             rec_msg = ''METRIC: '' @ n2 @ ''='' @ str_num py v2 @ u2 @ '' | Context: '' @
               json_dumps py (JObj [(''metric_name'', JStr n2), (''value'', JNum v2),
                                    (''unit'', JStr u2), (''tags'', JObj [])])\<rparr>]) (sinks W)"
    by (simp add: metric_wf(3) [OF w1] metric_wf(3) [OF assms] nm1)
qed

text \<open>The shape of the logger is an invariant of the monitor: the constructor
  establishes it and every method keeps it.\<close>

lemma start_monitoring_wf:
  "wf_logger (m_logger M) \<Longrightarrow> wf_logger (m_logger (start_monitoring py M workflow_run commit_sha))"
  by (simp add: start_monitoring_def Let_def info_wf(1))

lemma monitor_operation_wf:
  "wf_logger (m_logger M) \<Longrightarrow>
   wf_logger (m_logger (monitor_operation py M operation_name duration success))"
  by (simp add: monitor_operation_def Let_def two_metrics(1) warning_wf(1))

lemma track_error_wf:
  "wf_logger (m_logger M) \<Longrightarrow>
   wf_logger (m_logger (track_error py M error_type error_message context))"
  by (simp add: track_error_def Let_def error_wf(1))

lemma health_check_wf:
  "wf_logger (m_logger M) \<Longrightarrow> wf_logger (m_logger (snd (health_check py M env)))"
  by (auto simp add: health_check_def Let_def info_wf(1) split: sum.splits prod.splits)

lemma WorkflowMonitor_init_wf: "wf_logger (m_logger (WorkflowMonitor_init today now workflow_name))"
  by (simp add: WorkflowMonitor_init_def wf_init)

section \<open>C1: the records of a timer\<close>

text \<open>
  C1, as the code has it. A timer emits exactly one start record, before the work
  runs, to every sink. When the work completes, or raises an exception whose class
  derives from \<^verbatim>\<open>Exception\<close>, it emits exactly one end record after the work, to every
  sink: a \<^verbatim>\<open>Completed\<close> record at level \<^verbatim>\<open>INFO\<close> in the first case, a \<^verbatim>\<open>Failed\<close> record at
  level \<^verbatim>\<open>ERROR\<close> in the second, never both. When the work raises an exception that
  derives from \<^verbatim>\<open>BaseException\<close> only, no end record is emitted. In every case the
  outcome of the work is the outcome of the timer.
\<close>

theorem timer_start_and_end_records:
  assumes "wf_logger W"
    and "work (info py W (''Starting: '' @ operation_name) []) = (out, W2)"
    and "wf_logger W2"
  shows "fst (timer py W operation_name t0 work t1) = out \<and>
    sinks (info py W (''Starting: '' @ operation_name) []) =
      map (\<lambda>rs. rs @ [\<lparr>rec_name = wl_name W, rec_level = INFO,
                          rec_msg = ''Starting: '' @ operation_name\<rparr>]) (sinks W) \<and>
    sinks (snd (timer py W operation_name t0 work t1)) =
      (case out of
         Inr v \<Rightarrow>
           map (\<lambda>rs. rs @ [\<lparr>rec_name = wl_name W2, rec_level = INFO,
              rec_msg = ''Completed: '' @ operation_name @ '' ('' @ format_2f py (t1 - t0) @ ''s)''\<rparr>])
             (sinks W2)
       | Inl e \<Rightarrow>
           if exc_is_Exception e then
             map (\<lambda>rs. rs @ [\<lparr>rec_name = wl_name W2, rec_level = ERROR,
                rec_msg = ''Failed: '' @ operation_name @ '' ('' @ format_2f py (t1 - t0) @ ''s) - ''
                            @ exc_str e\<rparr>])
               (sinks W2)
           else sinks W2)"
proof -
  have start: "sinks (info py W (''Starting: '' @ operation_name) []) =
      map (\<lambda>rs. rs @ [\<lparr>rec_name = wl_name W, rec_level = INFO,
                          rec_msg = ''Starting: '' @ operation_name\<rparr>]) (sinks W)"
    using info_wf(3) [OF assms(1)] by simp
  show ?thesis
  proof (cases out)
    case (Inr v)
    then show ?thesis
      using assms(2) start info_wf(3) [OF assms(3)] by (simp add: timer_def Let_def)
  next
    case (Inl e)
    then show ?thesis
      using assms(2) start error_wf(3) [OF assms(3)] by (simp add: timer_def Let_def)
  qed
qed

text \<open>The theorem at a work that completes at once, on a fresh logger: every sink holds
  the start and the success record.\<close>

theorem timer_start_and_end_records_witness:
  "sinks (snd (timer example_py (WorkflowLogger_init ''2026-01-01'' ''w'' ''logs'') ''op'' 0
           (Pair (Inr ())) 1)) =
   [[\<lparr>rec_name = ''w'', rec_level = INFO, rec_msg = ''Starting: op''\<rparr>,
     \<lparr>rec_name = ''w'', rec_level = INFO, rec_msg = ''Completed: op (<seconds>s)''\<rparr>],
    [\<lparr>rec_name = ''w'', rec_level = INFO, rec_msg = ''Starting: op''\<rparr>,
     \<lparr>rec_name = ''w'', rec_level = INFO, rec_msg = ''Completed: op (<seconds>s)''\<rparr>],
    [\<lparr>rec_name = ''w'', rec_level = INFO, rec_msg = ''Starting: op''\<rparr>,
     \<lparr>rec_name = ''w'', rec_level = INFO, rec_msg = ''Completed: op (<seconds>s)''\<rparr>]]"
proof -
  let ?W = "WorkflowLogger_init ''2026-01-01'' ''w'' ''logs''"
  let ?W1 = "info example_py ?W (''Starting: '' @ ''op'') []"
  have w: "wf_logger ?W" by (rule wf_init)
  have w1: "wf_logger ?W1" by (rule info_wf(1) [OF w])
  have run: "Pair (Inr ()) ?W1 = (Inr () :: py_exc + unit, ?W1)" by simp
  have nm: "wl_name ?W = ''w''"
    by (simp add: WorkflowLogger_init_def setup_json_handler_def setup_file_handler_def
        setup_console_handler_def)
  have nm1: "wl_name ?W1 = ''w''" using info_wf(2) [OF w] nm by simp
  show ?thesis
    using timer_start_and_end_records
      [where py = example_py and W = ?W and operation_name = "''op''" and work = "Pair (Inr ())"
         and out = "Inr ()" and ?W2.0 = ?W1 and ?t0.0 = 0 and ?t1.0 = 1, OF w run w1]
      nm nm1
    by (simp add: sinks_init example_py_simps)
qed

text \<open>C1 as stated fails: a body that calls \<^verbatim>\<open>sys.exit(1)\<close> raises \<^verbatim>\<open>SystemExit\<close>, which
  \<^verbatim>\<open>except Exception\<close> does not catch; every sink holds the start record and no end
  record.\<close>

theorem timer_no_end_record_counterexample:
  "sinks (snd (timer example_py (WorkflowLogger_init ''2026-01-01'' ''w'' ''logs'') ''op'' 0
           (Pair (Inl (PyExc ''SystemExit'' False ''1'') :: py_exc + unit)) 1)) =
   [[\<lparr>rec_name = ''w'', rec_level = INFO, rec_msg = ''Starting: op''\<rparr>],
    [\<lparr>rec_name = ''w'', rec_level = INFO, rec_msg = ''Starting: op''\<rparr>],
    [\<lparr>rec_name = ''w'', rec_level = INFO, rec_msg = ''Starting: op''\<rparr>]]"
  by (simp add: timer_def info_def Logger_log_def handle_def sinks_def
      WorkflowLogger_init_def setup_json_handler_def setup_file_handler_def
      setup_console_handler_def addHandler_def Let_def)

section \<open>C2: the records of \<^verbatim>\<open>track_error\<close>\<close>

text \<open>
  C2, as the code has it. Every call of \<^verbatim>\<open>track_error\<close> emits, to every sink, one record
  at level \<^verbatim>\<open>ERROR\<close> with the message \<^verbatim>\<open>Error: <kind>\<close> and the context; when the kind is
  \<^verbatim>\<open>ollama_service_down\<close> or \<^verbatim>\<open>model_download_failed\<close> (the list \<^verbatim>\<open>critical_errors\<close>), and only
  then, a second record at level \<^verbatim>\<open>ERROR\<close> follows, with the prefix \<^verbatim>\<open>CRITICAL: \<close>.
\<close>

theorem track_error_records:
  assumes "wf_logger (m_logger M)"
  shows "sinks (m_logger (track_error py M error_type error_message context)) =
    map (\<lambda>rs. rs @
      (if error_type = ''ollama_service_down'' \<or> error_type = ''model_download_failed''
       then [\<lparr>rec_name = wl_name (m_logger M), rec_level = ERROR,
              rec_msg = ''Error: '' @ error_type @ '' | Context: '' @
                json_dumps py (JObj [(''error_type'', JStr error_type),
                  (''error_message'', JStr error_message),
                  (''workflow_run'', m_workflow_run M),
                  (''context'', if truthy context then context else JObj [])])\<rparr>,
             \<lparr>rec_name = wl_name (m_logger M), rec_level = ERROR,
              rec_msg = ''CRITICAL: '' @ error_type @ '' - '' @ error_message\<rparr>]
       else [\<lparr>rec_name = wl_name (m_logger M), rec_level = ERROR,
              rec_msg = ''Error: '' @ error_type @ '' | Context: '' @
                json_dumps py (JObj [(''error_type'', JStr error_type),
                  (''error_message'', JStr error_message),
                  (''workflow_run'', m_workflow_run M),
                  (''context'', if truthy context then context else JObj [])])\<rparr>]))
      (sinks (m_logger M))"
proof -
  let ?kw = "[(''error_type'', JStr error_type), (''error_message'', JStr error_message),
             (''workflow_run'', m_workflow_run M),
             (''context'', if truthy context then context else JObj [])]"
  let ?W1 = "error py (m_logger M) (''Error: '' @ error_type) ?kw"
  have w1: "wf_logger ?W1" and n1: "wl_name ?W1 = wl_name (m_logger M)"
    and s1: "sinks ?W1 = map (\<lambda>rs. rs @ [call_record py (wl_name (m_logger M))
                (Call ERROR (''Error: '' @ error_type) ?kw)]) (sinks (m_logger M))"
    using error_wf [OF assms] by blast+
  show ?thesis
    using error_wf(3) [OF w1] s1 n1 by (simp add: track_error_def Let_def)
qed

text \<open>The theorem at \<^verbatim>\<open>track_error("ollama_service_down", "x")\<close>, two records in every sink,
  and at \<^verbatim>\<open>track_error("minor_glitch", "x")\<close>, one.\<close>

theorem track_error_records_witness:
  "map length (sinks (m_logger
      (track_error example_py example_monitor ''ollama_service_down'' ''x'' JNull))) = [2, 2, 2] \<and>
   map length (sinks (m_logger
      (track_error example_py example_monitor ''minor_glitch'' ''x'' JNull))) = [1, 1, 1]"
  using track_error_records [OF example_monitor_logger(1), of example_py "''ollama_service_down''" "''x''" JNull]
    track_error_records [OF example_monitor_logger(1), of example_py "''minor_glitch''" "''x''" JNull]
  by (simp add: example_monitor_logger)

text \<open>C2 as stated fails: \<^verbatim>\<open>service unreachable\<close> is not in \<^verbatim>\<open>critical_errors\<close>, and
  \<^verbatim>\<open>track_error("service unreachable", "x")\<close> leaves one record in every sink, not two.\<close>

theorem track_error_service_unreachable_counterexample:
  "map length (sinks (m_logger
      (track_error example_py example_monitor ''service unreachable'' ''x'' JNull))) = [1, 1, 1]"
  by (simp add: track_error_def error_def Logger_log_def handle_def sinks_def example_monitor_def
      WorkflowMonitor_init_def
      WorkflowLogger_init_def setup_json_handler_def setup_file_handler_def
      setup_console_handler_def addHandler_def Let_def)

section \<open>C3: the threshold of \<^verbatim>\<open>monitor_operation\<close>\<close>

text \<open>
  C3. \<^verbatim>\<open>monitor_operation\<close> classifies as the specification's classifier does on the
  table \<^verbatim>\<open>thresholds\<close> with the default 120: after its two metric records it emits one
  record at level \<^verbatim>\<open>WARNING\<close>, carrying the duration and the threshold used, exactly when
  the classifier finds the operation not within budget, that is when the duration is
  not at most the threshold. On a table that maps \<^verbatim>\<open>model_download\<close> to 300 (the code's table
  is one) the classifier gives \<^verbatim>\<open>withinBudget = false, thresholdUsed = 300\<close> for
  \<^verbatim>\<open>("model_download", 301)\<close>, and \<^verbatim>\<open>withinBudget = true, thresholdUsed = 120\<close> for
  \<^verbatim>\<open>("unknown_op", 50)\<close>.
\<close>

theorem monitor_operation_threshold:
  assumes "wf_logger (m_logger M)"
  shows "(\<exists>ms. length ms = 2 \<and>
      sinks (m_logger (monitor_operation py M operation_name duration success)) =
        map (\<lambda>rs. rs @ ms @
          (if fst (spec_classify (map_of thresholds) 120 operation_name (num_val duration)) then []
           else [\<lparr>rec_name = wl_name (m_logger M), rec_level = WARNING,
                  rec_msg = ''Performance threshold exceeded: '' @ operation_name @
                    '' | Context: '' @
                    json_dumps py (JObj [(''duration'', JNum duration),
                      (''threshold'', JNum (PInt (snd (spec_classify (map_of thresholds) 120
                          operation_name (num_val duration)))))])\<rparr>]))
          (sinks (m_logger M))) \<and>
    spec_classify (map_of [(''model_download'', 300)]) 120 ''model_download'' 301 = (False, 300) \<and>
    spec_classify (map_of thresholds) 120 ''model_download'' 301 = (False, 300) \<and>
    spec_classify (map_of thresholds) 120 ''unknown_op'' 50 = (True, 120)"
proof -
  let ?W2 = "metric py (metric py (m_logger M) (operation_name @ ''_duration'') (py_round duration 2) ''s'' [])
                (operation_name @ ''_status'') (PInt (if success then 1 else 0)) [] []"
  let ?thr = "case map_of thresholds operation_name of Some t \<Rightarrow> t | None \<Rightarrow> 120"
  let ?ms = "[\<lparr>rec_name = wl_name (m_logger M), rec_level = INFO,
          rec_msg = ''METRIC: '' @ (operation_name @ ''_duration'') @ ''='' @
            str_num py (py_round duration 2) @ ''s'' @ '' | Context: '' @
            json_dumps py (JObj [(''metric_name'', JStr (operation_name @ ''_duration'')),
              (''value'', JNum (py_round duration 2)),
              (''unit'', JStr ''s''), (''tags'', JObj [])])\<rparr>,
         \<lparr>rec_name = wl_name (m_logger M), rec_level = INFO,
          rec_msg = ''METRIC: '' @ (operation_name @ ''_status'') @ ''='' @
            str_num py (PInt (if success then 1 else 0)) @ [] @ '' | Context: '' @
            json_dumps py (JObj [(''metric_name'', JStr (operation_name @ ''_status'')),
              (''value'', JNum (PInt (if success then 1 else 0))),
              (''unit'', JStr []), (''tags'', JObj [])])\<rparr>]"
  note m2 = two_metrics [OF assms, of py "operation_name @ ''_duration''" "py_round duration 2" "''s''"
      "operation_name @ ''_status''" "PInt (if success then 1 else 0)" "[]"]
  have cl: "spec_classify (map_of thresholds) 120 operation_name (num_val duration) =
        (\<not> of_int ?thr < num_val duration, ?thr)"
    by (simp add: spec_classify_def Let_def not_less)
  have "sinks (m_logger (monitor_operation py M operation_name duration success)) =
        map (\<lambda>rs. rs @ ?ms @
          (if fst (spec_classify (map_of thresholds) 120 operation_name (num_val duration)) then []
           else [\<lparr>rec_name = wl_name (m_logger M), rec_level = WARNING,
                  rec_msg = ''Performance threshold exceeded: '' @ operation_name @
                    '' | Context: '' @
                    json_dumps py (JObj [(''duration'', JNum duration),
                      (''threshold'', JNum (PInt (snd (spec_classify (map_of thresholds) 120
                          operation_name (num_val duration)))))])\<rparr>]))
          (sinks (m_logger M))"
  proof (cases "of_int ?thr < num_val duration")
    case True
    then have eq: "m_logger (monitor_operation py M operation_name duration success) =
       warning py ?W2 (''Performance threshold exceeded: '' @ operation_name)
                  [(''duration'', JNum duration), (''threshold'', JNum (PInt ?thr))]"
      by (simp add: monitor_operation_def Let_def)
    show ?thesis
      unfolding eq cl using True
      by (simp add: warning_wf(3) [OF m2(1)] m2(2) m2(3))
  next
    case False
    then have eq: "m_logger (monitor_operation py M operation_name duration success) = ?W2"
      by (simp add: monitor_operation_def Let_def)
    show ?thesis
      unfolding eq cl using False by (simp add: m2(3))
  qed
  then have first: "\<exists>ms. length ms = 2 \<and>
      sinks (m_logger (monitor_operation py M operation_name duration success)) =
        map (\<lambda>rs. rs @ ms @
          (if fst (spec_classify (map_of thresholds) 120 operation_name (num_val duration)) then []
           else [\<lparr>rec_name = wl_name (m_logger M), rec_level = WARNING,
                  rec_msg = ''Performance threshold exceeded: '' @ operation_name @
                    '' | Context: '' @
                    json_dumps py (JObj [(''duration'', JNum duration),
                      (''threshold'', JNum (PInt (snd (spec_classify (map_of thresholds) 120
                          operation_name (num_val duration)))))])\<rparr>]))
          (sinks (m_logger M))"
    by (intro exI [of _ ?ms] conjI) simp_all
  have ex: "spec_classify (map_of [(''model_download'', 300)]) 120 ''model_download'' 301 = (False, 300)"
    "spec_classify (map_of thresholds) 120 ''model_download'' 301 = (False, 300)"
    "spec_classify (map_of thresholds) 120 ''unknown_op'' 50 = (True, 120)"
    by (simp_all add: spec_classify_def thresholds_def)
  from first ex show ?thesis by blast
qed

text \<open>The theorem at \<^verbatim>\<open>monitor_operation("model_download", 301)\<close>, a warning after the two
  metric records in every sink, and at \<^verbatim>\<open>monitor_operation("unknown_op", 50)\<close>, none.\<close>

theorem monitor_operation_threshold_witness:
  "map (drop 2) (sinks (m_logger
      (monitor_operation example_py example_monitor ''model_download'' (PInt 301) True))) =
   [[\<lparr>rec_name = ''w'', rec_level = WARNING,
      rec_msg = ''Performance threshold exceeded: model_download | Context: <json>''\<rparr>],
    [\<lparr>rec_name = ''w'', rec_level = WARNING,
      rec_msg = ''Performance threshold exceeded: model_download | Context: <json>''\<rparr>],
    [\<lparr>rec_name = ''w'', rec_level = WARNING,
      rec_msg = ''Performance threshold exceeded: model_download | Context: <json>''\<rparr>]] \<and>
   map (drop 2) (sinks (m_logger
      (monitor_operation example_py example_monitor ''unknown_op'' (PInt 50) True))) =
   [[], [], []]"
  using monitor_operation_threshold [OF example_monitor_logger(1),
      of example_py "''model_download''" "PInt 301" True]
    monitor_operation_threshold [OF example_monitor_logger(1),
      of example_py "''unknown_op''" "PInt 50" True]
  by (auto simp add: example_monitor_logger example_py_simps)

section \<open>C4: what \<^verbatim>\<open>health_check\<close> does when a probe fails\<close>

text \<open>Every way \<^verbatim>\<open>health_check\<close> can end, by what its surroundings do.\<close>

lemma health_check_cases:
  "(case env_disk_usage env of
      Inl e \<Rightarrow> health_check py M env = (Inl (Raised e), M)
    | Inr (total_b, used_b, free_b) \<Rightarrow>
        if total_b = 0 then health_check py M env = (Inl ZeroDivisionError, M)
        else
          (case env_aws env of
             Run_raised e \<Rightarrow> health_check py M env = (Inl (Raised e), M)
           | Run_returned out \<Rightarrow>
               (\<exists>health. fst (health_check py M env) = Inr health \<and>
                  check_status health ''aws_configured'' = Some (JStr ''healthy''))
           | Run_CalledProcessError err \<Rightarrow>
               (\<exists>health. fst (health_check py M env) = Inr health \<and>
                  check_status health ''aws_configured'' = Some (JStr ''degraded''))
           | Run_FileNotFoundError \<Rightarrow>
               (\<exists>health. fst (health_check py M env) = Inr health \<and>
                  check_status health ''aws_configured'' = Some (JStr ''degraded''))))"
proof (cases "env_disk_usage env")
  case (Inl e)
  then show ?thesis by (simp add: health_check_def)
next
  case (Inr d)
  obtain total_b used_b free_b where d: "d = (total_b, used_b, free_b)" by (cases d) auto
  show ?thesis
  proof (cases "total_b = 0")
    case True
    then show ?thesis by (simp add: health_check_def Inr d)
  next
    case False
    show ?thesis
    proof (cases "env_aws env")
      case (Run_returned out)
      then show ?thesis
        by (simp add: health_check_def check_aws_configured_def check_status_def Let_def Inr d False)
    next
      case (Run_CalledProcessError err)
      then show ?thesis
        by (simp add: health_check_def check_aws_configured_def check_status_def Let_def Inr d False)
    next
      case Run_FileNotFoundError
      then show ?thesis
        by (simp add: health_check_def check_aws_configured_def check_status_def Let_def Inr d False)
    next
      case (Run_raised e)
      then show ?thesis
        by (simp add: health_check_def check_aws_configured_def check_status_def Let_def Inr d False)
    qed
  qed
qed

text \<open>
  C4, as the code has it. \<^verbatim>\<open>health_check\<close> has no exception handler. When
  \<^verbatim>\<open>shutil.disk_usage\<close> raises, \<^verbatim>\<open>health_check\<close> raises the same exception to its caller,
  returns no snapshot and logs nothing. When the disk query returns (a total that is
  not zero) and the \<^verbatim>\<open>aws\<close> command exits with an error or is not installed,
  \<^verbatim>\<open>run_aws_command\<close> catches that, \<^verbatim>\<open>health_check\<close> returns a snapshot and the status of
  \<^verbatim>\<open>aws_configured\<close> in it is \<^verbatim>\<open>degraded\<close>; when the command succeeds the status is
  \<^verbatim>\<open>healthy\<close>.
\<close>

theorem health_check_probe_failures:
  "(\<forall>e. env_disk_usage env = Inl e \<longrightarrow> health_check py M env = (Inl (Raised e), M)) \<and>
   (\<forall>total_b used_b free_b.
      env_disk_usage env = Inr (total_b, used_b, free_b) \<and> total_b \<noteq> 0 \<and>
      ((\<exists>err. env_aws env = Run_CalledProcessError err) \<or> env_aws env = Run_FileNotFoundError) \<longrightarrow>
      (\<exists>health. fst (health_check py M env) = Inr health \<and>
         check_status health ''aws_configured'' = Some (JStr ''degraded''))) \<and>
   (\<forall>total_b used_b free_b.
      env_disk_usage env = Inr (total_b, used_b, free_b) \<and> total_b \<noteq> 0 \<and>
      (\<exists>out. env_aws env = Run_returned out) \<longrightarrow>
      (\<exists>health. fst (health_check py M env) = Inr health \<and>
         check_status health ''aws_configured'' = Some (JStr ''healthy'')))"
  using health_check_cases [where env = env and py = py and M = M] by (auto split: sum.splits)

text \<open>The theorem at the example surroundings, where the \<^verbatim>\<open>aws\<close> command exits with an
  error, and at a disk query that raises \<^verbatim>\<open>PermissionError\<close>.\<close>

theorem health_check_probe_failures_witness:
  "(\<exists>health. fst (health_check example_py example_monitor example_env) = Inr health \<and>
      check_status health ''aws_configured'' = Some (JStr ''degraded'')) \<and>
   health_check example_py example_monitor
     (example_env\<lparr>env_disk_usage := Inl (PyExc ''PermissionError'' True ''[Errno 13] Permission denied'')\<rparr>) =
     (Inl (Raised (PyExc ''PermissionError'' True ''[Errno 13] Permission denied'')), example_monitor)"
  using health_check_probe_failures
      [where env = example_env and py = example_py and M = example_monitor]
    health_check_probe_failures
      [where env = "example_env\<lparr>env_disk_usage :=
                      Inl (PyExc ''PermissionError'' True ''[Errno 13] Permission denied'')\<rparr>"
         and py = example_py and M = example_monitor]
  by (simp add: example_env_def)

text \<open>C4 as stated fails: when the free-space query fails with an \<^verbatim>\<open>OSError\<close>,
  \<^verbatim>\<open>health_check\<close> raises it to its caller; there is no snapshot and no \<^verbatim>\<open>degraded\<close> status.\<close>

theorem health_check_raises_counterexample:
  "fst (health_check example_py example_monitor
          (example_env\<lparr>env_disk_usage := Inl (PyExc ''OSError'' True ''[Errno 5] Input/output error'')\<rparr>)) =
     Inl (Raised (PyExc ''OSError'' True ''[Errno 5] Input/output error''))"
  by (simp add: health_check_def example_env_def)

section \<open>C5: the health snapshot\<close>

text \<open>
  C5. A snapshot that \<^verbatim>\<open>health_check\<close> returns has the fields \<^verbatim>\<open>timestamp\<close>, \<^verbatim>\<open>workflow_run\<close> and
  \<^verbatim>\<open>checks\<close> and no other (no overall status), and \<^verbatim>\<open>checks\<close> has exactly the three entries
  \<^verbatim>\<open>disk_space\<close>, \<^verbatim>\<open>logs_directory\<close> and \<^verbatim>\<open>aws_configured\<close>. The status of \<^verbatim>\<open>disk_space\<close> is \<^verbatim>\<open>healthy\<close>
  when the free percentage exceeds 10 and \<^verbatim>\<open>warning\<close> otherwise; that of \<^verbatim>\<open>logs_directory\<close> is
  \<^verbatim>\<open>healthy\<close> when the logs directory exists and \<^verbatim>\<open>warning\<close> otherwise; that of
  \<^verbatim>\<open>aws_configured\<close> is \<^verbatim>\<open>healthy\<close> when \<^verbatim>\<open>check_aws_configured\<close> returns true and \<^verbatim>\<open>degraded\<close>
  otherwise. Each status depends on its own probe only.
\<close>

theorem health_check_snapshot:
  assumes "health_check py M env = (Inr health, M')"
  shows "\<exists>total_b used_b free_b s3_ok checks.
     env_disk_usage env = Inr (total_b, used_b, free_b) \<and>
     check_aws_configured py (env_aws env) = Inr s3_ok \<and>
     dict_keys health = [''timestamp'', ''workflow_run'', ''checks''] \<and>
     dict_get health ''checks'' = Some checks \<and>
     dict_keys checks = [''disk_space'', ''logs_directory'', ''aws_configured''] \<and>
     check_status health ''disk_space'' =
       Some (JStr (if 10 < real free_b / real total_b * 100 then ''healthy'' else ''warning'')) \<and>
     check_status health ''logs_directory'' =
       Some (JStr (if fst (env_logs_exists env) then ''healthy'' else ''warning'')) \<and>
     check_status health ''aws_configured'' =
       Some (JStr (if s3_ok then ''healthy'' else ''degraded''))"
proof (cases "env_disk_usage env")
  case (Inl e)
  then show ?thesis using assms by (simp add: health_check_def)
next
  case (Inr d)
  obtain total_b used_b free_b where d: "d = (total_b, used_b, free_b)" by (cases d) auto
  have nz: "total_b \<noteq> 0"
  proof
    assume "total_b = 0"
    then have "fst (health_check py M env) = Inl ZeroDivisionError"
      by (simp add: health_check_def Inr d)
    then show False using assms by simp
  qed
  show ?thesis
  proof (cases "check_aws_configured py (env_aws env)")
    case bad: (Inl e)
    have "fst (health_check py M env) = Inl (Raised e)"
      by (simp add: health_check_def Let_def Inr d nz bad)
    then show ?thesis using assms by simp
  next
    case ok: (Inr s3_ok)
    have h: "health = JObj [(''timestamp'', JStr (isoformat py (env_now env))),
                            (''workflow_run'', m_workflow_run M),
                            (''checks'',
                               JObj [(''disk_space'',
                                  JObj [(''status'', JStr (if 10 < real free_b / real total_b * 100 then ''healthy'' else ''warning'')),
                                        (''free_percent'', JNum (PFloat (round_float (real free_b / real total_b * 100) 1)))]),
                                     (''logs_directory'',
                                  JObj [(''status'', JStr (if fst (env_logs_exists env) then ''healthy'' else ''warning'')),
                                        (''exists'', JBool (snd (env_logs_exists env)))]),
                                     (''aws_configured'',
                                  JObj [(''status'', JStr (if s3_ok then ''healthy'' else ''degraded'')),
                                        (''configured'', JBool s3_ok)])])]"
      using assms Inr d ok nz by (simp add: health_check_def Let_def)
    show ?thesis
      by (intro exI [of _ total_b] exI [of _ used_b] exI [of _ free_b] exI [of _ s3_ok]
          exI [of _ "the (dict_get health ''checks'')"])
        (simp add: Inr d ok h check_status_def)
  qed
qed

text \<open>The theorem at the example surroundings: disk and logs healthy, reachability
  degraded.\<close>

theorem health_check_snapshot_witness:
  "dict_keys (projr (fst (health_check example_py example_monitor example_env))) =
     [''timestamp'', ''workflow_run'', ''checks''] \<and>
   check_status (projr (fst (health_check example_py example_monitor example_env))) ''disk_space'' =
     Some (JStr ''healthy'') \<and>
   check_status (projr (fst (health_check example_py example_monitor example_env))) ''logs_directory'' =
     Some (JStr ''healthy'') \<and>
   check_status (projr (fst (health_check example_py example_monitor example_env))) ''aws_configured'' =
     Some (JStr ''degraded'')"
proof -
  obtain health M' where r: "health_check example_py example_monitor example_env = (Inr health, M')"
    by (simp add: health_check_def example_env_def check_aws_configured_def Let_def)
  have aws: "check_aws_configured example_py (env_aws example_env) = Inr False"
    by (simp add: example_env_def check_aws_configured_def)
  have env: "env_disk_usage example_env = Inr (1000, 400, 600)"
    "fst (env_logs_exists example_env) = True"
    by (simp_all add: example_env_def)
  have h: "projr (fst (health_check example_py example_monitor example_env)) = health"
    by (simp add: r)
  from health_check_snapshot [OF r] show ?thesis
    unfolding h aws env by auto
qed

section \<open>C6: what each sink receives\<close>

text \<open>
  C6. A \<^verbatim>\<open>WorkflowLogger\<close> as \<^verbatim>\<open>__init__\<close> builds it has three sinks in this order: the
  console (standard output) with minimum level \<^verbatim>\<open>INFO\<close>, the detailed plain-text file with
  minimum level \<^verbatim>\<open>DEBUG\<close>, and the JSON-lines file with minimum level \<^verbatim>\<open>INFO\<close>. After any
  sequence of calls of its logging methods, each sink holds exactly the records of the
  calls whose level is at or above the sink's minimum, in call order.
\<close>

theorem sinks_receive_exactly_the_admitted_records:
  "map h_level (lg_handlers (wl_logger (WorkflowLogger_init today name log_dir))) = [INFO, DEBUG, INFO] \<and>
   map h_stream (lg_handlers (wl_logger (WorkflowLogger_init today name log_dir))) =
     [StreamHandler_stdout,
      FileHandler (path_str (path_div (Path log_dir) (name @ ''-'' @ today @ ''.log''))),
      FileHandler (path_str (path_div (Path log_dir) (name @ ''-'' @ today @ ''.json'')))] \<and>
   map h_formatter (lg_handlers (wl_logger (WorkflowLogger_init today name log_dir))) =
     [Formatter ''%(asctime)s - %(name)s - %(levelname)s - %(message)s'',
      Formatter ''%(asctime)s - %(levelname)s - %(funcName)s:%(lineno)d - %(message)s'',
      JsonFormatter] \<and>
   sinks (run_calls py (WorkflowLogger_init today name log_dir) calls) =
     [filter (admits INFO) (map (call_record py name) calls),
      filter (admits DEBUG) (map (call_record py name) calls),
      filter (admits INFO) (map (call_record py name) calls)]"
proof -
  let ?W = "WorkflowLogger_init today name log_dir"
  have lv: "lg_level (wl_logger ?W) = DEBUG"
    by (simp add: WorkflowLogger_init_def setup_json_handler_def setup_file_handler_def
        setup_console_handler_def addHandler_def Let_def)
  have nm: "lg_name (wl_logger ?W) = name"
    by (simp add: WorkflowLogger_init_def setup_json_handler_def setup_file_handler_def
        setup_console_handler_def addHandler_def Let_def)
  have hs: "map h_level (lg_handlers (wl_logger ?W)) = [INFO, DEBUG, INFO]"
    "map h_emitted (lg_handlers (wl_logger ?W)) = [[], [], []]"
    "map h_stream (lg_handlers (wl_logger ?W)) =
     [StreamHandler_stdout,
      FileHandler (path_str (path_div (Path log_dir) (name @ ''-'' @ today @ ''.log''))),
      FileHandler (path_str (path_div (Path log_dir) (name @ ''-'' @ today @ ''.json'')))]"
    "map h_formatter (lg_handlers (wl_logger ?W)) =
     [Formatter ''%(asctime)s - %(name)s - %(levelname)s - %(message)s'',
      Formatter ''%(asctime)s - %(levelname)s - %(funcName)s:%(lineno)d - %(message)s'',
      JsonFormatter]"
    by (simp_all add: WorkflowLogger_init_def setup_json_handler_def setup_file_handler_def
        setup_console_handler_def addHandler_def Let_def)
  obtain a b c where abc: "lg_handlers (wl_logger ?W) = [a, b, c]"
    using hs(1) by (auto simp: map_eq_Cons_conv)
  show ?thesis
    using hs by (simp add: sinks_def run_calls_logger [OF lv] nm abc)
qed

section \<open>C7: a failing work under a timer\<close>

text \<open>
  C7, as the code has it. When the work raises, the timer raises the same exception
  (same class, same message) to its caller: it never swallows or replaces it. When
  the class of the exception derives from \<^verbatim>\<open>Exception\<close>, the timer first emits, to every
  sink, one record at level \<^verbatim>\<open>ERROR\<close> whose message holds the elapsed seconds (the
  difference of the two clock readings, two decimals) and \<^verbatim>\<open>str\<close> of the exception.
  When the class derives from \<^verbatim>\<open>BaseException\<close> only, the timer emits nothing after the
  work.
\<close>

theorem timer_reraises_the_failure:
  assumes "wf_logger W"
    and "work (info py W (''Starting: '' @ operation_name) []) = (Inl e, W2)"
    and "wf_logger W2"
  shows "fst (timer py W operation_name t0 work t1) = Inl e \<and>
    sinks (snd (timer py W operation_name t0 work t1)) =
      (if exc_is_Exception e then
         map (\<lambda>rs. rs @ [\<lparr>rec_name = wl_name W2, rec_level = ERROR,
            rec_msg = ''Failed: '' @ operation_name @ '' ('' @ format_2f py (t1 - t0) @ ''s) - ''
                        @ exc_str e\<rparr>])
           (sinks W2)
       else sinks W2)"
  using assms(2) error_wf(3) [OF assms(3)] by (simp add: timer_def Let_def)

text \<open>The theorem at a work that raises \<^verbatim>\<open>ValueError("bad input")\<close> on a fresh logger.\<close>

theorem timer_reraises_the_failure_witness:
  "fst (timer example_py (WorkflowLogger_init ''2026-01-01'' ''w'' ''logs'') ''op'' 0
         (Pair (Inl (PyExc ''ValueError'' True ''bad input'') :: py_exc + unit)) 1) =
     Inl (PyExc ''ValueError'' True ''bad input'') \<and>
   sinks (snd (timer example_py (WorkflowLogger_init ''2026-01-01'' ''w'' ''logs'') ''op'' 0
           (Pair (Inl (PyExc ''ValueError'' True ''bad input'') :: py_exc + unit)) 1)) =
   [[\<lparr>rec_name = ''w'', rec_level = INFO, rec_msg = ''Starting: op''\<rparr>,
     \<lparr>rec_name = ''w'', rec_level = ERROR, rec_msg = ''Failed: op (<seconds>s) - bad input''\<rparr>],
    [\<lparr>rec_name = ''w'', rec_level = INFO, rec_msg = ''Starting: op''\<rparr>,
     \<lparr>rec_name = ''w'', rec_level = ERROR, rec_msg = ''Failed: op (<seconds>s) - bad input''\<rparr>],
    [\<lparr>rec_name = ''w'', rec_level = INFO, rec_msg = ''Starting: op''\<rparr>,
     \<lparr>rec_name = ''w'', rec_level = ERROR, rec_msg = ''Failed: op (<seconds>s) - bad input''\<rparr>]]"
proof -
  let ?W = "WorkflowLogger_init ''2026-01-01'' ''w'' ''logs''"
  let ?W1 = "info example_py ?W (''Starting: '' @ ''op'') []"
  let ?e = "PyExc ''ValueError'' True ''bad input''"
  have w: "wf_logger ?W" by (rule wf_init)
  have w1: "wf_logger ?W1" by (rule info_wf(1) [OF w])
  have run: "Pair (Inl ?e) ?W1 = (Inl ?e :: py_exc + unit, ?W1)" by simp
  have nm: "wl_name ?W = ''w''"
    by (simp add: WorkflowLogger_init_def setup_json_handler_def setup_file_handler_def
        setup_console_handler_def)
  have nm1: "wl_name ?W1 = ''w''" using info_wf(2) [OF w] nm by simp
  have s1: "sinks ?W1 =
     map (\<lambda>rs. rs @ [call_record example_py (wl_name ?W) (Call INFO (''Starting: '' @ ''op'') [])])
       (sinks ?W)"
    by (rule info_wf(3) [OF w])
  show ?thesis
    using timer_reraises_the_failure
      [where py = example_py and W = ?W and operation_name = "''op''" and work = "Pair (Inl ?e)"
         and e = ?e and ?W2.0 = ?W1 and ?t0.0 = 0 and ?t1.0 = 1, OF w run w1]
      nm nm1 s1
    by (simp add: sinks_init example_py_simps)
qed

text \<open>C7 as stated fails: for a work interrupted by \<^verbatim>\<open>KeyboardInterrupt\<close> no sink holds a
  record at level \<^verbatim>\<open>ERROR\<close>.\<close>

theorem timer_no_error_record_counterexample:
  "map (filter (\<lambda>r. rec_level r = ERROR))
     (sinks (snd (timer example_py (WorkflowLogger_init ''2026-01-01'' ''w'' ''logs'') ''op'' 0
           (Pair (Inl (PyExc ''KeyboardInterrupt'' False []) :: py_exc + unit)) 1))) =
   [[], [], []]"
  by (simp add: timer_def info_def Logger_log_def handle_def sinks_def
      WorkflowLogger_init_def setup_json_handler_def setup_file_handler_def
      setup_console_handler_def addHandler_def Let_def)

section \<open>Facts about rounding, the file system and \<^verbatim>\<open>generate_summary\<close>\<close>













section \<open>C8: the summary file\<close>



section \<open>C9: the duration in a summary\<close>




section \<open>C10: the two metric records of \<^verbatim>\<open>monitor_operation\<close>\<close>

text \<open>
  C10. Every call of \<^verbatim>\<open>monitor_operation(operation_name, duration, success)\<close> emits, to every
  sink, exactly two metric records, whether or not the threshold is exceeded: the
  first named \<^verbatim>\<open><operation_name>_duration\<close>, its value the duration rounded to two decimals,
  its unit \<^verbatim>\<open>s\<close>; the second named \<^verbatim>\<open><operation_name>_status\<close>, its value 1 when \<^verbatim>\<open>success\<close>
  holds and 0 otherwise. What may follow them is at most one record, at level
  \<^verbatim>\<open>WARNING\<close>, which is no metric record.
\<close>

theorem monitor_operation_two_metric_records:
  assumes "wf_logger (m_logger M)"
  shows "\<exists>rest.
    sinks (m_logger (monitor_operation py M operation_name duration success)) =
      map (\<lambda>rs. rs @
        [\<lparr>rec_name = wl_name (m_logger M), rec_level = INFO,
          rec_msg = ''METRIC: '' @ (operation_name @ ''_duration'') @ ''='' @
            str_num py (py_round duration 2) @ ''s'' @ '' | Context: '' @
            json_dumps py (JObj [(''metric_name'', JStr (operation_name @ ''_duration'')),
              (''value'', JNum (py_round duration 2)),
              (''unit'', JStr ''s''), (''tags'', JObj [])])\<rparr>,
         \<lparr>rec_name = wl_name (m_logger M), rec_level = INFO,
          rec_msg = ''METRIC: '' @ (operation_name @ ''_status'') @ ''='' @
            str_num py (PInt (if success then 1 else 0)) @ '' | Context: '' @
            json_dumps py (JObj [(''metric_name'', JStr (operation_name @ ''_status'')),
              (''value'', JNum (PInt (if success then 1 else 0))),
              (''unit'', JStr []), (''tags'', JObj [])])\<rparr>] @ rest)
        (sinks (m_logger M)) \<and>
    (rest = [] \<or> (\<exists>msg. rest = [\<lparr>rec_name = wl_name (m_logger M), rec_level = WARNING,
                                     rec_msg = msg\<rparr>]))"
proof -
  let ?W2 = "metric py (metric py (m_logger M) (operation_name @ ''_duration'') (py_round duration 2) ''s'' [])
                (operation_name @ ''_status'') (PInt (if success then 1 else 0)) [] []"
  let ?thr = "case map_of thresholds operation_name of Some t \<Rightarrow> t | None \<Rightarrow> 120"
  note m2 = two_metrics [OF assms, of py "operation_name @ ''_duration''" "py_round duration 2" "''s''"
      "operation_name @ ''_status''" "PInt (if success then 1 else 0)" "[]"]
  show ?thesis
  proof (cases "of_int ?thr < num_val duration")
    case True
    then have eq: "m_logger (monitor_operation py M operation_name duration success) =
       warning py ?W2 (''Performance threshold exceeded: '' @ operation_name)
                  [(''duration'', JNum duration), (''threshold'', JNum (PInt ?thr))]"
      by (simp add: monitor_operation_def Let_def)
    show ?thesis
      unfolding eq
      by (rule exI [of _ "[call_record py (wl_name (m_logger M))
            (Call WARNING (''Performance threshold exceeded: '' @ operation_name)
                  [(''duration'', JNum duration), (''threshold'', JNum (PInt ?thr))])]"])
         (simp add: warning_wf(3) [OF m2(1)] m2(2) m2(3))
  next
    case False
    then have eq: "m_logger (monitor_operation py M operation_name duration success) = ?W2"
      by (simp add: monitor_operation_def Let_def)
    show ?thesis
      unfolding eq by (rule exI [of _ "[]"]) (simp add: m2(3))
  qed
qed

text \<open>The theorem at \<^verbatim>\<open>monitor_operation("test_operation", 1.0, success=True)\<close> on a fresh
  monitor: the first two records of every sink.\<close>

theorem monitor_operation_two_metric_records_witness:
  "map (take 2) (sinks (m_logger
      (monitor_operation example_py example_monitor ''test_operation'' (PFloat 1) True))) =
   [[\<lparr>rec_name = ''w'', rec_level = INFO,
      rec_msg = ''METRIC: test_operation_duration=<number>s | Context: <json>''\<rparr>,
     \<lparr>rec_name = ''w'', rec_level = INFO,
      rec_msg = ''METRIC: test_operation_status=<number> | Context: <json>''\<rparr>],
    [\<lparr>rec_name = ''w'', rec_level = INFO,
      rec_msg = ''METRIC: test_operation_duration=<number>s | Context: <json>''\<rparr>,
     \<lparr>rec_name = ''w'', rec_level = INFO,
      rec_msg = ''METRIC: test_operation_status=<number> | Context: <json>''\<rparr>],
    [\<lparr>rec_name = ''w'', rec_level = INFO,
      rec_msg = ''METRIC: test_operation_duration=<number>s | Context: <json>''\<rparr>,
     \<lparr>rec_name = ''w'', rec_level = INFO,
      rec_msg = ''METRIC: test_operation_status=<number> | Context: <json>''\<rparr>]]"
  using monitor_operation_two_metric_records [OF example_monitor_logger(1),
      of example_py "''test_operation''" "PFloat 1" True]
  by (auto simp add: example_monitor_logger example_py_simps)

end
